theory Spec2Isabelle
  imports Complex_Main
begin

section \<open>Python text\<close>

text \<open>
  A Python \<open>str\<close> is a sequence of Unicode code points, and \<open>len\<close> counts code points.
  A text is therefore a list of code points (natural numbers), and a literal of the source
  is written \<open>lit ''...''\<close>. Python's unbounded integers are \<open>int\<close>.
\<close>

type_synonym str = "nat list"

definition lit :: "string \<Rightarrow> str" where
  "lit s = map of_char s"

definition ch :: "char \<Rightarrow> nat" where
  "ch c = of_char c"

definition len :: "'a list \<Rightarrow> int" where
  "len xs = int (length xs)"

fun in_ranges :: "nat \<Rightarrow> (nat \<times> nat) list \<Rightarrow> bool" where
  "in_ranges c [] = False"
| "in_ranges c ((a, b) # rs) = (if a \<le> c \<and> c \<le> b then True else in_ranges c rs)"

text \<open>
  The character classes of the interpreter (CPython 3.11, Unicode 14.0.0), as inclusive
  ranges of code points: \<open>str.isspace\<close> (what \<open>strip\<close> removes and \<open>\s\<close> matches),
  the decimal digits (\<open>\d\<close>) and the word characters (\<open>\w\<close>, which decides \<open>\b\<close>).
\<close>

definition space_ranges :: "(nat \<times> nat) list" where
  "space_ranges = [
    (9, 13), (28, 32), (133, 133), (160, 160), (5760, 5760), (8192, 8202),
    (8232, 8233), (8239, 8239), (8287, 8287), (12288, 12288)]"

definition decimal_ranges :: "(nat \<times> nat) list" where
  "decimal_ranges = [
    (48, 57), (1632, 1641), (1776, 1785), (1984, 1993), (2406, 2415), (2534, 2543),
    (2662, 2671), (2790, 2799), (2918, 2927), (3046, 3055), (3174, 3183), (3302, 3311),
    (3430, 3439), (3558, 3567), (3664, 3673), (3792, 3801), (3872, 3881), (4160, 4169),
    (4240, 4249), (6112, 6121), (6160, 6169), (6470, 6479), (6608, 6617), (6784, 6793),
    (6800, 6809), (6992, 7001), (7088, 7097), (7232, 7241), (7248, 7257), (42528, 42537),
    (43216, 43225), (43264, 43273), (43472, 43481), (43504, 43513), (43600, 43609), (44016, 44025),
    (65296, 65305), (66720, 66729), (68912, 68921), (69734, 69743), (69872, 69881), (69942, 69951),
    (70096, 70105), (70384, 70393), (70736, 70745), (70864, 70873), (71248, 71257), (71360, 71369),
    (71472, 71481), (71904, 71913), (72016, 72025), (72784, 72793), (73040, 73049), (73120, 73129),
    (92768, 92777), (92864, 92873), (93008, 93017), (120782, 120831), (123200, 123209), (123632, 123641),
    (125264, 125273), (130032, 130041)]"

definition word_ranges_0 :: "(nat \<times> nat) list" where
  "word_ranges_0 = [
    (48, 57), (65, 90), (95, 95), (97, 122), (170, 170), (178, 179),
    (181, 181), (185, 186), (188, 190), (192, 214), (216, 246), (248, 705),
    (710, 721), (736, 740), (748, 748), (750, 750), (880, 884), (886, 887),
    (890, 893), (895, 895), (902, 902), (904, 906), (908, 908), (910, 929),
    (931, 1013), (1015, 1153), (1162, 1327), (1329, 1366), (1369, 1369), (1376, 1416),
    (1488, 1514), (1519, 1522), (1568, 1610), (1632, 1641), (1646, 1647), (1649, 1747),
    (1749, 1749), (1765, 1766), (1774, 1788), (1791, 1791), (1808, 1808), (1810, 1839),
    (1869, 1957), (1969, 1969), (1984, 2026), (2036, 2037), (2042, 2042), (2048, 2069),
    (2074, 2074), (2084, 2084), (2088, 2088), (2112, 2136), (2144, 2154), (2160, 2183),
    (2185, 2190), (2208, 2249), (2308, 2361), (2365, 2365), (2384, 2384), (2392, 2401),
    (2406, 2415), (2417, 2432), (2437, 2444), (2447, 2448), (2451, 2472), (2474, 2480),
    (2482, 2482), (2486, 2489), (2493, 2493), (2510, 2510), (2524, 2525), (2527, 2529),
    (2534, 2545), (2548, 2553), (2556, 2556), (2565, 2570), (2575, 2576), (2579, 2600),
    (2602, 2608), (2610, 2611), (2613, 2614), (2616, 2617), (2649, 2652), (2654, 2654),
    (2662, 2671), (2674, 2676), (2693, 2701), (2703, 2705), (2707, 2728), (2730, 2736),
    (2738, 2739), (2741, 2745), (2749, 2749), (2768, 2768), (2784, 2785), (2790, 2799),
    (2809, 2809), (2821, 2828), (2831, 2832), (2835, 2856), (2858, 2864), (2866, 2867),
    (2869, 2873), (2877, 2877), (2908, 2909), (2911, 2913), (2918, 2927), (2929, 2935),
    (2947, 2947), (2949, 2954), (2958, 2960), (2962, 2965), (2969, 2970), (2972, 2972),
    (2974, 2975), (2979, 2980), (2984, 2986), (2990, 3001), (3024, 3024), (3046, 3058),
    (3077, 3084), (3086, 3088), (3090, 3112), (3114, 3129), (3133, 3133), (3160, 3162),
    (3165, 3165), (3168, 3169), (3174, 3183), (3192, 3198), (3200, 3200), (3205, 3212),
    (3214, 3216), (3218, 3240), (3242, 3251), (3253, 3257), (3261, 3261), (3293, 3294),
    (3296, 3297), (3302, 3311), (3313, 3314), (3332, 3340), (3342, 3344), (3346, 3386),
    (3389, 3389), (3406, 3406), (3412, 3414), (3416, 3425), (3430, 3448), (3450, 3455)]"

definition word_ranges_1 :: "(nat \<times> nat) list" where
  "word_ranges_1 = [
    (3461, 3478), (3482, 3505), (3507, 3515), (3517, 3517), (3520, 3526), (3558, 3567),
    (3585, 3632), (3634, 3635), (3648, 3654), (3664, 3673), (3713, 3714), (3716, 3716),
    (3718, 3722), (3724, 3747), (3749, 3749), (3751, 3760), (3762, 3763), (3773, 3773),
    (3776, 3780), (3782, 3782), (3792, 3801), (3804, 3807), (3840, 3840), (3872, 3891),
    (3904, 3911), (3913, 3948), (3976, 3980), (4096, 4138), (4159, 4169), (4176, 4181),
    (4186, 4189), (4193, 4193), (4197, 4198), (4206, 4208), (4213, 4225), (4238, 4238),
    (4240, 4249), (4256, 4293), (4295, 4295), (4301, 4301), (4304, 4346), (4348, 4680),
    (4682, 4685), (4688, 4694), (4696, 4696), (4698, 4701), (4704, 4744), (4746, 4749),
    (4752, 4784), (4786, 4789), (4792, 4798), (4800, 4800), (4802, 4805), (4808, 4822),
    (4824, 4880), (4882, 4885), (4888, 4954), (4969, 4988), (4992, 5007), (5024, 5109),
    (5112, 5117), (5121, 5740), (5743, 5759), (5761, 5786), (5792, 5866), (5870, 5880),
    (5888, 5905), (5919, 5937), (5952, 5969), (5984, 5996), (5998, 6000), (6016, 6067),
    (6103, 6103), (6108, 6108), (6112, 6121), (6128, 6137), (6160, 6169), (6176, 6264),
    (6272, 6276), (6279, 6312), (6314, 6314), (6320, 6389), (6400, 6430), (6470, 6509),
    (6512, 6516), (6528, 6571), (6576, 6601), (6608, 6618), (6656, 6678), (6688, 6740),
    (6784, 6793), (6800, 6809), (6823, 6823), (6917, 6963), (6981, 6988), (6992, 7001),
    (7043, 7072), (7086, 7141), (7168, 7203), (7232, 7241), (7245, 7293), (7296, 7304),
    (7312, 7354), (7357, 7359), (7401, 7404), (7406, 7411), (7413, 7414), (7418, 7418),
    (7424, 7615), (7680, 7957), (7960, 7965), (7968, 8005), (8008, 8013), (8016, 8023),
    (8025, 8025), (8027, 8027), (8029, 8029), (8031, 8061), (8064, 8116), (8118, 8124),
    (8126, 8126), (8130, 8132), (8134, 8140), (8144, 8147), (8150, 8155), (8160, 8172),
    (8178, 8180), (8182, 8188), (8304, 8305), (8308, 8313), (8319, 8329), (8336, 8348),
    (8450, 8450), (8455, 8455), (8458, 8467), (8469, 8469), (8473, 8477), (8484, 8484),
    (8486, 8486), (8488, 8488), (8490, 8493), (8495, 8505), (8508, 8511), (8517, 8521),
    (8526, 8526), (8528, 8585), (9312, 9371), (9450, 9471), (10102, 10131), (11264, 11492)]"

definition word_ranges_2 :: "(nat \<times> nat) list" where
  "word_ranges_2 = [
    (11499, 11502), (11506, 11507), (11517, 11517), (11520, 11557), (11559, 11559), (11565, 11565),
    (11568, 11623), (11631, 11631), (11648, 11670), (11680, 11686), (11688, 11694), (11696, 11702),
    (11704, 11710), (11712, 11718), (11720, 11726), (11728, 11734), (11736, 11742), (11823, 11823),
    (12293, 12295), (12321, 12329), (12337, 12341), (12344, 12348), (12353, 12438), (12445, 12447),
    (12449, 12538), (12540, 12543), (12549, 12591), (12593, 12686), (12690, 12693), (12704, 12735),
    (12784, 12799), (12832, 12841), (12872, 12879), (12881, 12895), (12928, 12937), (12977, 12991),
    (13312, 19903), (19968, 42124), (42192, 42237), (42240, 42508), (42512, 42539), (42560, 42606),
    (42623, 42653), (42656, 42735), (42775, 42783), (42786, 42888), (42891, 42954), (42960, 42961),
    (42963, 42963), (42965, 42969), (42994, 43009), (43011, 43013), (43015, 43018), (43020, 43042),
    (43056, 43061), (43072, 43123), (43138, 43187), (43216, 43225), (43250, 43255), (43259, 43259),
    (43261, 43262), (43264, 43301), (43312, 43334), (43360, 43388), (43396, 43442), (43471, 43481),
    (43488, 43492), (43494, 43518), (43520, 43560), (43584, 43586), (43588, 43595), (43600, 43609),
    (43616, 43638), (43642, 43642), (43646, 43695), (43697, 43697), (43701, 43702), (43705, 43709),
    (43712, 43712), (43714, 43714), (43739, 43741), (43744, 43754), (43762, 43764), (43777, 43782),
    (43785, 43790), (43793, 43798), (43808, 43814), (43816, 43822), (43824, 43866), (43868, 43881),
    (43888, 44002), (44016, 44025), (44032, 55203), (55216, 55238), (55243, 55291), (63744, 64109),
    (64112, 64217), (64256, 64262), (64275, 64279), (64285, 64285), (64287, 64296), (64298, 64310),
    (64312, 64316), (64318, 64318), (64320, 64321), (64323, 64324), (64326, 64433), (64467, 64829),
    (64848, 64911), (64914, 64967), (65008, 65019), (65136, 65140), (65142, 65276), (65296, 65305),
    (65313, 65338), (65345, 65370), (65382, 65470), (65474, 65479), (65482, 65487), (65490, 65495),
    (65498, 65500), (65536, 65547), (65549, 65574), (65576, 65594), (65596, 65597), (65599, 65613),
    (65616, 65629), (65664, 65786), (65799, 65843), (65856, 65912), (65930, 65931), (66176, 66204),
    (66208, 66256), (66273, 66299), (66304, 66339), (66349, 66378), (66384, 66421), (66432, 66461),
    (66464, 66499), (66504, 66511), (66513, 66517), (66560, 66717), (66720, 66729), (66736, 66771),
    (66776, 66811), (66816, 66855), (66864, 66915), (66928, 66938), (66940, 66954), (66956, 66962)]"

definition word_ranges_3 :: "(nat \<times> nat) list" where
  "word_ranges_3 = [
    (66964, 66965), (66967, 66977), (66979, 66993), (66995, 67001), (67003, 67004), (67072, 67382),
    (67392, 67413), (67424, 67431), (67456, 67461), (67463, 67504), (67506, 67514), (67584, 67589),
    (67592, 67592), (67594, 67637), (67639, 67640), (67644, 67644), (67647, 67669), (67672, 67702),
    (67705, 67742), (67751, 67759), (67808, 67826), (67828, 67829), (67835, 67867), (67872, 67897),
    (67968, 68023), (68028, 68047), (68050, 68096), (68112, 68115), (68117, 68119), (68121, 68149),
    (68160, 68168), (68192, 68222), (68224, 68255), (68288, 68295), (68297, 68324), (68331, 68335),
    (68352, 68405), (68416, 68437), (68440, 68466), (68472, 68497), (68521, 68527), (68608, 68680),
    (68736, 68786), (68800, 68850), (68858, 68899), (68912, 68921), (69216, 69246), (69248, 69289),
    (69296, 69297), (69376, 69415), (69424, 69445), (69457, 69460), (69488, 69505), (69552, 69579),
    (69600, 69622), (69635, 69687), (69714, 69743), (69745, 69746), (69749, 69749), (69763, 69807),
    (69840, 69864), (69872, 69881), (69891, 69926), (69942, 69951), (69956, 69956), (69959, 69959),
    (69968, 70002), (70006, 70006), (70019, 70066), (70081, 70084), (70096, 70106), (70108, 70108),
    (70113, 70132), (70144, 70161), (70163, 70187), (70272, 70278), (70280, 70280), (70282, 70285),
    (70287, 70301), (70303, 70312), (70320, 70366), (70384, 70393), (70405, 70412), (70415, 70416),
    (70419, 70440), (70442, 70448), (70450, 70451), (70453, 70457), (70461, 70461), (70480, 70480),
    (70493, 70497), (70656, 70708), (70727, 70730), (70736, 70745), (70751, 70753), (70784, 70831),
    (70852, 70853), (70855, 70855), (70864, 70873), (71040, 71086), (71128, 71131), (71168, 71215),
    (71236, 71236), (71248, 71257), (71296, 71338), (71352, 71352), (71360, 71369), (71424, 71450),
    (71472, 71483), (71488, 71494), (71680, 71723), (71840, 71922), (71935, 71942), (71945, 71945),
    (71948, 71955), (71957, 71958), (71960, 71983), (71999, 71999), (72001, 72001), (72016, 72025),
    (72096, 72103), (72106, 72144), (72161, 72161), (72163, 72163), (72192, 72192), (72203, 72242),
    (72250, 72250), (72272, 72272), (72284, 72329), (72349, 72349), (72368, 72440), (72704, 72712),
    (72714, 72750), (72768, 72768), (72784, 72812), (72818, 72847), (72960, 72966), (72968, 72969),
    (72971, 73008), (73030, 73030), (73040, 73049), (73056, 73061), (73063, 73064), (73066, 73097),
    (73112, 73112), (73120, 73129), (73440, 73458), (73648, 73648), (73664, 73684), (73728, 74649)]"

definition word_ranges_4 :: "(nat \<times> nat) list" where
  "word_ranges_4 = [
    (74752, 74862), (74880, 75075), (77712, 77808), (77824, 78894), (82944, 83526), (92160, 92728),
    (92736, 92766), (92768, 92777), (92784, 92862), (92864, 92873), (92880, 92909), (92928, 92975),
    (92992, 92995), (93008, 93017), (93019, 93025), (93027, 93047), (93053, 93071), (93760, 93846),
    (93952, 94026), (94032, 94032), (94099, 94111), (94176, 94177), (94179, 94179), (94208, 100343),
    (100352, 101589), (101632, 101640), (110576, 110579), (110581, 110587), (110589, 110590), (110592, 110882),
    (110928, 110930), (110948, 110951), (110960, 111355), (113664, 113770), (113776, 113788), (113792, 113800),
    (113808, 113817), (119520, 119539), (119648, 119672), (119808, 119892), (119894, 119964), (119966, 119967),
    (119970, 119970), (119973, 119974), (119977, 119980), (119982, 119993), (119995, 119995), (119997, 120003),
    (120005, 120069), (120071, 120074), (120077, 120084), (120086, 120092), (120094, 120121), (120123, 120126),
    (120128, 120132), (120134, 120134), (120138, 120144), (120146, 120485), (120488, 120512), (120514, 120538),
    (120540, 120570), (120572, 120596), (120598, 120628), (120630, 120654), (120656, 120686), (120688, 120712),
    (120714, 120744), (120746, 120770), (120772, 120779), (120782, 120831), (122624, 122654), (123136, 123180),
    (123191, 123197), (123200, 123209), (123214, 123214), (123536, 123565), (123584, 123627), (123632, 123641),
    (124896, 124902), (124904, 124907), (124909, 124910), (124912, 124926), (124928, 125124), (125127, 125135),
    (125184, 125251), (125259, 125259), (125264, 125273), (126065, 126123), (126125, 126127), (126129, 126132),
    (126209, 126253), (126255, 126269), (126464, 126467), (126469, 126495), (126497, 126498), (126500, 126500),
    (126503, 126503), (126505, 126514), (126516, 126519), (126521, 126521), (126523, 126523), (126530, 126530),
    (126535, 126535), (126537, 126537), (126539, 126539), (126541, 126543), (126545, 126546), (126548, 126548),
    (126551, 126551), (126553, 126553), (126555, 126555), (126557, 126557), (126559, 126559), (126561, 126562),
    (126564, 126564), (126567, 126570), (126572, 126578), (126580, 126583), (126585, 126588), (126590, 126590),
    (126592, 126601), (126603, 126619), (126625, 126627), (126629, 126633), (126635, 126651), (127232, 127244),
    (130032, 130041), (131072, 173791), (173824, 177976), (177984, 178205), (178208, 183969), (183984, 191456),
    (194560, 195101), (196608, 201546)]"

definition isspace :: "nat \<Rightarrow> bool" where
  "isspace c = in_ranges c space_ranges"

definition isdecimal :: "nat \<Rightarrow> bool" where
  "isdecimal c = in_ranges c decimal_ranges"

definition isword :: "nat \<Rightarrow> bool" where
  "isword c = (in_ranges c word_ranges_0 \<or> in_ranges c word_ranges_1 \<or> in_ranges c word_ranges_2
     \<or> in_ranges c word_ranges_3 \<or> in_ranges c word_ranges_4)"

definition lstrip :: "str \<Rightarrow> str" where
  "lstrip t = dropWhile isspace t"

definition strip :: "str \<Rightarrow> str" where
  "strip t = rev (dropWhile isspace (rev (dropWhile isspace t)))"

definition startswith :: "str \<Rightarrow> str \<Rightarrow> bool" where
  "startswith t p = (take (length p) t = p)"

definition endswith :: "str \<Rightarrow> str \<Rightarrow> bool" where
  "endswith t p = (length p \<le> length t \<and> drop (length t - length p) t = p)"

text \<open>\<open>t.find(c)\<close> and \<open>t.rfind(c)\<close> for a one-character needle: the index, or \<open>-1\<close>.\<close>

fun find_from :: "nat \<Rightarrow> nat \<Rightarrow> str \<Rightarrow> int" where
  "find_from i c [] = -1"
| "find_from i c (x # xs) = (if x = c then int i else find_from (Suc i) c xs)"

definition str_find :: "str \<Rightarrow> nat \<Rightarrow> int" where
  "str_find t c = find_from 0 c t"

definition str_rfind :: "str \<Rightarrow> nat \<Rightarrow> int" where
  "str_rfind t c = (let r = find_from 0 c (rev t) in if r = -1 then -1 else len t - 1 - r)"

text \<open>
  Python's slice \<open>t[i:j]\<close>: a negative bound counts from the end, and both bounds are
  clamped to \<open>0 .. len(t)\<close>; \<open>t[:j]\<close> is \<open>slice t 0 j\<close>.
\<close>

definition slice_bound :: "int \<Rightarrow> int \<Rightarrow> nat" where
  "slice_bound n i = nat (if i < 0 then max 0 (n + i) else min i n)"

definition slice :: "'a list \<Rightarrow> int \<Rightarrow> int \<Rightarrow> 'a list" where
  "slice t i j = (let a = slice_bound (len t) i; b = slice_bound (len t) j in take (b - a) (drop a t))"

definition prefix :: "'a list \<Rightarrow> int \<Rightarrow> 'a list" where
  "prefix t j = slice t 0 j"

text \<open>\<open>s.replace("\n", "\\n")\<close>: every line feed becomes a backslash and the letter n.\<close>

fun replace_newlines :: "str \<Rightarrow> str" where
  "replace_newlines [] = []"
| "replace_newlines (c # cs) = (if c = 10 then 92 # 110 # replace_newlines cs else c # replace_newlines cs)"

section \<open>The two regular expressions of the stub heuristic\<close>

text \<open>
  \<open>re.match(r"^\s*\d+\.\s+", t)\<close>. The classes \<open>\s\<close> and \<open>\d\<close> are disjoint and neither
  holds the full stop, so the greedy match never backtracks: skip the spaces, take at least
  one digit, a full stop, at least one space. The result is the text after the match.
\<close>

definition match_numbered :: "str \<Rightarrow> str option" where
  "match_numbered t =
     (let r1 = dropWhile isspace t; r2 = dropWhile isdecimal r1 in
      if r2 = r1 then None
      else (case r2 of
              [] \<Rightarrow> None
            | c # r3 \<Rightarrow>
                if c = ch CHR ''.'' \<and> r3 \<noteq> [] \<and> isspace (hd r3) then Some (dropWhile isspace r3)
                else None))"

text \<open>
  The literal \<open>The speaker\<close> under \<open>re.IGNORECASE\<close>: for each letter of the pattern, the
  code points it matches (both cases, and the long s and the Kelvin sign, which fold to
  s and k).
\<close>

definition the_speaker_icase :: "nat list list" where
  "the_speaker_icase =
     [[84, 116], [72, 104], [69, 101], [32], [83, 115, 383], [80, 112], [69, 101],
      [65, 97], [75, 107, 8490], [69, 101], [82, 114]]"

fun match_classes :: "nat list list \<Rightarrow> str \<Rightarrow> str option" where
  "match_classes [] t = Some t"
| "match_classes (cl # cls) [] = None"
| "match_classes (cl # cls) (c # t) = (if c \<in> set cl then match_classes cls t else None)"

text \<open>
  \<open>re.match(r"^\s*\d+\.\s+The speaker\b", t, re.IGNORECASE)\<close>: the numbered opener, the
  literal, and a word boundary after its last letter (the end of the text, or a character
  that is not a word character).
\<close>

definition match_numbered_speaker :: "str \<Rightarrow> bool" where
  "match_numbered_speaker t =
     (case match_numbered t of
        None \<Rightarrow> False
      | Some r \<Rightarrow>
          (case match_classes the_speaker_icase r of
             None \<Rightarrow> False
           | Some r' \<Rightarrow> r' = [] \<or> \<not> isword (hd r')))"

definition looks_like_stub :: "str \<Rightarrow> bool" where
  "looks_like_stub resp_text =
     (let t = strip resp_text in
      if t = [] then True
      else if len t < 80 \<and> match_numbered_speaker t then True
      else if len t < 120 \<and> match_numbered t \<noteq> None then True
      else False)"

section \<open>The JSON decoder of the standard library\<close>

text \<open>
  \<open>json.loads\<close> on a \<open>str\<close>, as CPython 3.11 decodes it with its C scanner: the value,
  or \<open>None\<close> where it raises (\<open>JSONDecodeError\<close>, or \<open>ValueError\<close> for an integer of more
  than 4300 digits). Both callers catch every exception of the decoder, so only whether it
  raises matters to them. A Python value is a \<open>json\<close>: \<open>JNull\<close> is \<open>None\<close>, a \<open>dict\<close>
  is the list of its items in the order of the text (the last item of a key wins). A float
  is kept as the exact value of its numeral.
\<close>

datatype json =
    JNull
  | JBool bool
  | JInt int
  | JFloat rat
  | JNaN
  | JPosInf
  | JNegInf
  | JStr str
  | JArr "json list"
  | JObj "(str \<times> json) list"

definition is_ws :: "nat \<Rightarrow> bool" where
  "is_ws c = (c = 32 \<or> c = 9 \<or> c = 10 \<or> c = 13)"

definition skip_ws :: "str \<Rightarrow> str" where
  "skip_ws cs = dropWhile is_ws cs"

definition isdigit :: "nat \<Rightarrow> bool" where
  "isdigit c = (48 \<le> c \<and> c \<le> 57)"

definition digits_val :: "str \<Rightarrow> int" where
  "digits_val ds = foldl (\<lambda>a d. 10 * a + int (d - 48)) 0 ds"

definition hexval :: "nat \<Rightarrow> nat option" where
  "hexval c =
     (if 48 \<le> c \<and> c \<le> 57 then Some (c - 48)
      else if 97 \<le> c \<and> c \<le> 102 then Some (c - 87)
      else if 65 \<le> c \<and> c \<le> 70 then Some (c - 55)
      else None)"

definition hex4 :: "str \<Rightarrow> nat option" where
  "hex4 cs =
     (case map hexval (take 4 cs) of
        [Some a, Some b, Some c, Some d] \<Rightarrow> Some (((a * 16 + b) * 16 + c) * 16 + d)
      | _ \<Rightarrow> None)"

definition unescape :: "nat \<Rightarrow> nat option" where
  "unescape e =
     (if e = 34 then Some 34
      else if e = 92 then Some 92
      else if e = ch CHR ''/'' then Some (ch CHR ''/'')
      else if e = ch CHR ''b'' then Some 8
      else if e = ch CHR ''f'' then Some 12
      else if e = ch CHR ''n'' then Some 10
      else if e = ch CHR ''r'' then Some 13
      else if e = ch CHR ''t'' then Some 9
      else None)"

definition join_surrogates :: "nat \<Rightarrow> nat \<Rightarrow> nat" where
  "join_surrogates hi lo = 65536 + (hi - 55296) * 1024 + (lo - 56320)"

text \<open>
  \<open>scanstring\<close> after the opening quote, in strict mode: up to the closing quote (34), with
  the escapes after a backslash (92); a raw control character is an error. A high
  surrogate escape followed by a low surrogate escape is one code point.
\<close>

fun scanstring :: "str \<Rightarrow> str \<Rightarrow> (str \<times> str) option" where
  "scanstring acc [] = None"
| "scanstring acc (c # cs) =
     (if c = 34 then Some (acc, cs)
      else if c = 92 then
        (case cs of
           [] \<Rightarrow> None
         | e # r \<Rightarrow>
             if e = ch CHR ''u'' then
               (case hex4 r of
                  None \<Rightarrow> None
                | Some u \<Rightarrow>
                    if 55296 \<le> u \<and> u \<le> 56319 \<and> 6 < length (drop 4 r)
                       \<and> take 2 (drop 4 r) = [92, ch CHR ''u'']
                    then
                      (case hex4 (drop 6 r) of
                         None \<Rightarrow> None
                       | Some u2 \<Rightarrow>
                           if 56320 \<le> u2 \<and> u2 \<le> 57343
                           then scanstring (acc @ [join_surrogates u u2]) (drop 10 r)
                           else scanstring (acc @ [u]) (drop 4 r))
                    else scanstring (acc @ [u]) (drop 4 r))
             else
               (case unescape e of
                  None \<Rightarrow> None
                | Some x \<Rightarrow> scanstring (acc @ [x]) r))
      else if c \<le> 31 then None
      else scanstring (acc @ [c]) cs)"

text \<open>
  A number: \<open>-?(0|[1-9][0-9]*)(\.[0-9]+)?([eE][-+]?[0-9]+)?\<close>, the longest match. It is a
  float when it has a fraction or an exponent, an \<open>int\<close> otherwise.
\<close>

definition lex_exponent :: "str \<Rightarrow> (int \<times> str) option" where
  "lex_exponent cs =
     (case cs of
        [] \<Rightarrow> None
      | e # r \<Rightarrow>
          if e \<noteq> ch CHR ''e'' \<and> e \<noteq> ch CHR ''E'' then None
          else
            (let (sg, r1) =
                   (case r of
                      [] \<Rightarrow> (1, r)
                    | s # r' \<Rightarrow>
                        if s = ch CHR ''+'' then (1, r')
                        else if s = ch CHR ''-'' then (-1, r')
                        else (1, r))
             in if takeWhile isdigit r1 = [] then None
                else Some (sg * digits_val (takeWhile isdigit r1), dropWhile isdigit r1)))"

definition lex_fraction :: "str \<Rightarrow> (str \<times> str) option" where
  "lex_fraction cs =
     (case cs of
        p # q # r \<Rightarrow>
          if p = ch CHR ''.'' \<and> isdigit q then Some (q # takeWhile isdigit r, dropWhile isdigit r)
          else None
      | _ \<Rightarrow> None)"

definition float_value :: "bool \<Rightarrow> str \<Rightarrow> str \<Rightarrow> int \<Rightarrow> rat" where
  "float_value neg ip fp ex =
     (let m = of_int (digits_val (ip @ fp)) / 10 ^ length fp;
          v = (if 0 \<le> ex then m * 10 ^ nat ex else m / 10 ^ nat (- ex))
      in if neg then - v else v)"

definition lex_number :: "str \<Rightarrow> (json \<times> str) option" where
  "lex_number cs =
     (let (neg, r0) = (case cs of [] \<Rightarrow> (False, cs) | c # r \<Rightarrow> if c = ch CHR ''-'' then (True, r) else (False, cs))
      in case r0 of
           [] \<Rightarrow> None
         | d # r1 \<Rightarrow>
             if \<not> isdigit d then None
             else
               (let (ip, r2) = (if d = 48 then ([d], r1) else (d # takeWhile isdigit r1, dropWhile isdigit r1));
                    (fp, r3) = (case lex_fraction r2 of None \<Rightarrow> ([], r2) | Some (f, r) \<Rightarrow> (f, r))
                in case lex_exponent r3 of
                     Some (ex, r4) \<Rightarrow> Some (JFloat (float_value neg ip fp ex), r4)
                   | None \<Rightarrow>
                       if fp \<noteq> [] then Some (JFloat (float_value neg ip fp 0), r3)
                       else if 4300 < length ip then None
                       else Some (JInt (if neg then - digits_val ip else digits_val ip), r3)))"

text \<open>
  The recursive scanner. Its first argument bounds the number of nested calls; every call
  is on a text shorter than its caller's, so \<open>json_loads\<close> starts it with more than the
  length of the text. (CPython gives up with \<open>RecursionError\<close>, which the callers catch as
  well, at a nesting of about a thousand; that limit of the interpreter is not modelled.)
\<close>

fun scan_once :: "nat \<Rightarrow> str \<Rightarrow> (json \<times> str) option"
  and parse_object :: "nat \<Rightarrow> (str \<times> json) list \<Rightarrow> str \<Rightarrow> (json \<times> str) option"
  and parse_array :: "nat \<Rightarrow> json list \<Rightarrow> str \<Rightarrow> (json \<times> str) option" where
  "scan_once 0 cs = None"
| "scan_once (Suc n) [] = None"
| "scan_once (Suc n) (c # r) =
     (if c = 34 then
        (case scanstring [] r of None \<Rightarrow> None | Some (s, r') \<Rightarrow> Some (JStr s, r'))
      else if c = ch CHR ''{'' then
        (case skip_ws r of
           [] \<Rightarrow> None
         | d # r' \<Rightarrow> if d = ch CHR ''}'' then Some (JObj [], r') else parse_object n [] (d # r'))
      else if c = ch CHR ''['' then
        (case skip_ws r of
           [] \<Rightarrow> None
         | d # r' \<Rightarrow> if d = ch CHR '']'' then Some (JArr [], r') else parse_array n [] (d # r'))
      else if startswith (c # r) (lit ''null'') then Some (JNull, drop 4 (c # r))
      else if startswith (c # r) (lit ''true'') then Some (JBool True, drop 4 (c # r))
      else if startswith (c # r) (lit ''false'') then Some (JBool False, drop 5 (c # r))
      else if startswith (c # r) (lit ''NaN'') then Some (JNaN, drop 3 (c # r))
      else if startswith (c # r) (lit ''Infinity'') then Some (JPosInf, drop 8 (c # r))
      else if startswith (c # r) (lit ''-Infinity'') then Some (JNegInf, drop 9 (c # r))
      else lex_number (c # r))"
| "parse_object 0 acc cs = None"
| "parse_object (Suc n) acc cs =
     (case cs of
        [] \<Rightarrow> None
      | q # r \<Rightarrow>
          if q \<noteq> 34 then None
          else
            (case scanstring [] r of
               None \<Rightarrow> None
             | Some (k, r1) \<Rightarrow>
                 (case skip_ws r1 of
                    [] \<Rightarrow> None
                  | col # r2 \<Rightarrow>
                      if col \<noteq> ch CHR '':'' then None
                      else
                        (case scan_once n (skip_ws r2) of
                           None \<Rightarrow> None
                         | Some (v, r3) \<Rightarrow>
                             (case skip_ws r3 of
                                [] \<Rightarrow> None
                              | d # r4 \<Rightarrow>
                                  if d = ch CHR ''}'' then Some (JObj (acc @ [(k, v)]), r4)
                                  else if d = ch CHR '','' then parse_object n (acc @ [(k, v)]) (skip_ws r4)
                                  else None)))))"
| "parse_array 0 acc cs = None"
| "parse_array (Suc n) acc cs =
     (case scan_once n cs of
        None \<Rightarrow> None
      | Some (v, r1) \<Rightarrow>
          (case skip_ws r1 of
             [] \<Rightarrow> None
           | d # r2 \<Rightarrow>
               if d = ch CHR '']'' then Some (JArr (acc @ [v]), r2)
               else if d = ch CHR '','' then parse_array n (acc @ [v]) (skip_ws r2)
               else None))"

definition json_loads :: "str \<Rightarrow> json option" where
  "json_loads s =
     (if startswith s [65279] then None
      else
        (case scan_once (Suc (length s)) (skip_ws s) of
           None \<Rightarrow> None
         | Some (v, r) \<Rightarrow> if skip_ws r = [] then Some v else None))"

section \<open>limit\_probe.py\<close>

subsection \<open>Values, exceptions and the environment\<close>

datatype py_error = AttributeError | TypeError | UnicodeEncodeError | SystemExit | RequestError | HTTPStatusError | JSONDecodeError

datatype outcome = OK_JSON | OK_TEXT | STUB | BAD_JSON | EMPTY | TRUNCATED | ERROR

text \<open>
  A Python float (a clock reading, the temperature) is carried along and never computed
  with; the one operation on it, \<open>round(x, 3)\<close>, belongs to the environment.
\<close>

type_synonym pyfloat = real

record RunResult =
  n_chars :: int
  elapsed_s :: pyfloat
  http_status :: int
  done_reason :: json
  eval_count :: json
  prompt_eval_count :: json
  total_duration :: json
  raw_response_len :: int
  outcome :: outcome
  response_preview :: str

record payload =
  p_model :: str
  p_prompt :: str
  p_stream :: bool
  p_temperature :: pyfloat
  p_num_ctx :: int
  p_num_predict :: int
  p_format :: "str option"

text \<open>
  What \<open>request.urlopen\<close> and reading the body do, one constructor for each branch of the
  \<open>try\<close> statement of \<open>post_ollama\<close>: a response with its status and decoded body, an
  \<open>HTTPError\<close> with its code and decoded body, or any other exception with the name of
  its type and its message.
\<close>

datatype urlopen_result =
    Responded int str
  | Raised_HTTPError int str
  | Raised_Exception str str

text \<open>
  The environment of a run. The service and the clock are not functions of the request
  alone, so each is indexed by the number of the trial (0, 1, 2, ...) within the run.
\<close>

record world =
  urlopen :: "nat \<Rightarrow> str \<Rightarrow> payload \<Rightarrow> int \<Rightarrow> urlopen_result"
  elapsed :: "nat \<Rightarrow> pyfloat"
  strftime :: "nat \<Rightarrow> str"
  round3 :: "pyfloat \<Rightarrow> pyfloat"

subsection \<open>The HTTP call and the envelope\<close>

definition post_ollama :: "world \<Rightarrow> nat \<Rightarrow> str \<Rightarrow> payload \<Rightarrow> int \<Rightarrow> int \<times> str" where
  "post_ollama w i url pl timeout_s =
     (case urlopen w i url pl timeout_s of
        Responded status text \<Rightarrow> (status, text)
      | Raised_HTTPError code txt \<Rightarrow> ((if code \<noteq> 0 then code else 0), txt)
      | Raised_Exception name msg \<Rightarrow> (0, lit ''__EXCEPTION__ '' @ name @ lit '': '' @ msg))"

text \<open>
  The dictionary of the envelope. Where the decoder raises, the text of its exception
  follows the prefix of \<open>_parse_error\<close> in the source; no code reads that entry, and the
  model keeps the prefix only.
\<close>

definition extract_generate_fields :: "str \<Rightarrow> json" where
  "extract_generate_fields http_text =
     (let t = lstrip http_text in
      if \<not> startswith t (lit ''{'') then
        JObj [(lit ''_parse_error'', JStr (lit ''HTTP body did not start with JSON object'')),
              (lit ''_raw'', JStr t)]
      else
        (case json_loads t of
           Some v \<Rightarrow> v
         | None \<Rightarrow>
             JObj [(lit ''_parse_error'', JStr (lit ''Could not parse HTTP JSON: '')),
                   (lit ''_raw'', JStr t)]))"

text \<open>\<open>d.get(k, default)\<close>; a value that is not a \<open>dict\<close> has no \<open>get\<close>.\<close>

definition dict_get :: "json \<Rightarrow> str \<Rightarrow> json \<Rightarrow> py_error + json" where
  "dict_get d k dflt =
     (case d of
        JObj items \<Rightarrow> (case map_of (rev items) k of Some v \<Rightarrow> Inr v | None \<Rightarrow> Inr dflt)
      | _ \<Rightarrow> Inl AttributeError)"

subsection \<open>The classifier\<close>

definition try_parse_json_output :: "str \<Rightarrow> bool" where
  "try_parse_json_output resp_text =
     (let t = strip resp_text in
      if t = [] then False
      else if startswith t (lit ''{'') \<and> endswith t (lit ''}'') then json_loads t \<noteq> None
      else
        (let start = str_find t (ch CHR ''{''); stop = str_rfind t (ch CHR ''}'') in
         if start = -1 \<or> stop = -1 \<or> stop \<le> start then False
         else json_loads (slice t start (stop + 1)) \<noteq> None))"

text \<open>
  The response text is whatever the envelope holds under \<open>response\<close>: only a \<open>str\<close> has
  \<open>strip\<close>, so every other value raises \<open>AttributeError\<close> at the first line.
\<close>

definition classify_outcome :: "json \<Rightarrow> bool \<Rightarrow> json \<Rightarrow> py_error + outcome" where
  "classify_outcome resp_text want_json dr =
     (case resp_text of
        JStr s \<Rightarrow>
          (let t = strip s in
           if startswith t (lit ''__EXCEPTION__'') then Inr ERROR
           else if t = [] then Inr EMPTY
           else if looks_like_stub t then Inr STUB
           else if want_json then
             (if try_parse_json_output t then Inr OK_JSON
              else if dr = JStr (lit ''length'') then Inr TRUNCATED
              else Inr BAD_JSON)
           else if dr = JStr (lit ''length'') then Inr TRUNCATED
           else Inr OK_TEXT)
      | _ \<Rightarrow> Inl AttributeError)"

subsection \<open>One trial\<close>

definition build_prompt :: "str \<Rightarrow> str \<Rightarrow> str" where
  "build_prompt instructions transcript =
     strip instructions @ [10, 10] @ lit ''===TRANSCRIPT_BEGIN==='' @ [10] @ transcript
       @ [10] @ lit ''===TRANSCRIPT_END==='' @ [10]"

definition make_preview :: "str \<Rightarrow> str" where
  "make_preview s =
     (let preview = replace_newlines (strip s) in
      if len preview > 220 then prefix preview 220 @ [8230] else preview)"

definition run_once ::
  "world \<Rightarrow> nat \<Rightarrow> str \<Rightarrow> str \<Rightarrow> str \<Rightarrow> str \<Rightarrow> bool \<Rightarrow> bool \<Rightarrow> pyfloat \<Rightarrow> int \<Rightarrow> int \<Rightarrow> int
     \<Rightarrow> py_error + RunResult" where
  "run_once w i url model instructions transcript_prefix want_json stream temperature num_ctx
       num_predict timeout_s =
     (let prompt = build_prompt instructions transcript_prefix;
          pl = \<lparr>p_model = model, p_prompt = prompt, p_stream = stream, p_temperature = temperature,
                p_num_ctx = num_ctx, p_num_predict = num_predict,
                p_format = (if want_json then Some (lit ''json'') else None)\<rparr>;
          (status, http_text) = post_ollama w i url pl timeout_s;
          data = extract_generate_fields http_text
      in case dict_get data (lit ''_raw'') (JStr []) of
           Inl e \<Rightarrow> Inl e
         | Inr raw \<Rightarrow>
        (case dict_get data (lit ''response'') raw of
           Inl e \<Rightarrow> Inl e
         | Inr resp_text \<Rightarrow>
        (case dict_get data (lit ''done_reason'') (JStr (lit ''unknown'')) of
           Inl e \<Rightarrow> Inl e
         | Inr dr \<Rightarrow>
        (case classify_outcome resp_text want_json dr of
           Inl e \<Rightarrow> Inl e
         | Inr oc \<Rightarrow>
        (case resp_text of
           JStr s \<Rightarrow>
             (case (dict_get data (lit ''eval_count'') JNull,
                    dict_get data (lit ''prompt_eval_count'') JNull,
                    dict_get data (lit ''total_duration'') JNull) of
                (Inr ec, Inr pec, Inr td) \<Rightarrow>
                  Inr \<lparr>n_chars = len transcript_prefix, elapsed_s = elapsed w i,
                       http_status = status, done_reason = dr, eval_count = ec,
                       prompt_eval_count = pec, total_duration = td,
                       raw_response_len = len (if s = [] then [] else s),
                       outcome = oc, response_preview = make_preview s\<rparr>
              | _ \<Rightarrow> Inl AttributeError)
         | _ \<Rightarrow> Inl AttributeError)))))"

subsection \<open>The log\<close>

text \<open>
  The log file is the list of its lines, each line the record that \<open>json.dumps\<close> writes.
  The file is opened as UTF-8 and the line is written with \<open>ensure_ascii=False\<close>, so a
  lone surrogate (which a \<open>\uXXXX\<close> escape of the envelope can put into a text) cannot be
  encoded: \<open>f.write\<close> raises \<open>UnicodeEncodeError\<close> and the file is left as it was.
  The texts of a line that can hold one are the preview and the values taken from the
  envelope; the outcome and the timestamp (digits, hyphens, colons, a space) cannot.
\<close>

record log_line =
  l_n_chars :: int
  l_elapsed_s :: pyfloat
  l_http_status :: int
  l_done_reason :: json
  l_eval_count :: json
  l_prompt_eval_count :: json
  l_total_duration :: json
  l_raw_response_len :: int
  l_outcome :: outcome
  l_preview :: str
  l_search_lo :: int
  l_search_hi :: int
  l_ts :: str

definition has_surrogate :: "str \<Rightarrow> bool" where
  "has_surrogate s = (\<exists>c \<in> set s. 55296 \<le> c \<and> c \<le> 57343)"

fun json_has_surrogate :: "json \<Rightarrow> bool" where
  "json_has_surrogate (JStr s) = has_surrogate s"
| "json_has_surrogate (JArr vs) = (\<exists>v \<in> set vs. json_has_surrogate v)"
| "json_has_surrogate (JObj kvs) = (\<exists>(k, v) \<in> set kvs. has_surrogate k \<or> json_has_surrogate v)"
| "json_has_surrogate _ = False"

definition encodable :: "log_line \<Rightarrow> bool" where
  "encodable l =
     (\<not> json_has_surrogate (l_done_reason l) \<and> \<not> json_has_surrogate (l_eval_count l)
      \<and> \<not> json_has_surrogate (l_prompt_eval_count l) \<and> \<not> json_has_surrogate (l_total_duration l)
      \<and> \<not> has_surrogate (l_preview l))"

definition make_line :: "world \<Rightarrow> nat \<Rightarrow> RunResult \<Rightarrow> int \<Rightarrow> int \<Rightarrow> log_line" where
  "make_line w i rr lo hi =
     \<lparr>l_n_chars = n_chars rr, l_elapsed_s = round3 w (elapsed_s rr), l_http_status = http_status rr,
      l_done_reason = done_reason rr, l_eval_count = eval_count rr,
      l_prompt_eval_count = prompt_eval_count rr, l_total_duration = total_duration rr,
      l_raw_response_len = raw_response_len rr, l_outcome = outcome rr,
      l_preview = response_preview rr, l_search_lo = lo, l_search_hi = hi, l_ts = strftime w i\<rparr>"

definition write_log_line ::
  "world \<Rightarrow> nat \<Rightarrow> log_line list \<Rightarrow> RunResult \<Rightarrow> int \<Rightarrow> int \<Rightarrow> py_error + log_line list" where
  "write_log_line w i log_file rr lo hi =
     (let line = make_line w i rr lo hi in
      if encodable line then Inr (log_file @ [line]) else Inl UnicodeEncodeError)"

subsection \<open>The search\<close>

text \<open>
  The parsed command line, as far as the search reads it. The transcript and the
  instruction text are the texts that \<open>main\<close> has read before the search starts.
\<close>

record args =
  arg_url :: str
  arg_model :: str
  arg_want_json :: bool
  arg_num_ctx :: int
  arg_num_predict :: int
  arg_temperature :: pyfloat
  arg_timeout :: int
  arg_min_chars :: int
  arg_max_chars :: int
  arg_tolerance :: int

definition is_success :: "outcome \<Rightarrow> bool" where
  "is_success oc = (oc = OK_JSON \<or> oc = OK_TEXT)"

text \<open>
  The variables of \<open>main\<close> that the loop changes, with the log file and the number of
  HTTP calls made so far.
\<close>

record search_state =
  st_lo :: int
  st_hi :: int
  st_best_ok :: "RunResult option"
  st_log :: "log_line list"
  st_calls :: nat

definition trial :: "world \<Rightarrow> args \<Rightarrow> str \<Rightarrow> str \<Rightarrow> nat \<Rightarrow> int \<Rightarrow> py_error + RunResult" where
  "trial w a transcript instructions i n =
     run_once w i (arg_url a) (arg_model a) instructions (prefix transcript n) (arg_want_json a)
       False (arg_temperature a) (arg_num_ctx a) (arg_num_predict a) (arg_timeout a)"

text \<open>
  The body of the \<open>while\<close> loop: the trial at \<open>mid\<close>, the log line with the bounds as they
  are before the update, then the update. An exception leaves the loop (\<open>Inl\<close>) with the
  state at that moment.
\<close>

definition search_step ::
  "world \<Rightarrow> args \<Rightarrow> str \<Rightarrow> str \<Rightarrow> search_state \<Rightarrow> py_error \<times> search_state + search_state" where
  "search_step w a transcript instructions s =
     (let mid = (st_lo s + st_hi s) div 2;
          s1 = s\<lparr>st_calls := Suc (st_calls s)\<rparr>
      in case trial w a transcript instructions (st_calls s) mid of
           Inl e \<Rightarrow> Inl (e, s1)
         | Inr rr \<Rightarrow>
             (case write_log_line w (st_calls s) (st_log s) rr (st_lo s) (st_hi s) of
                Inl e \<Rightarrow> Inl (e, s1)
              | Inr log_file \<Rightarrow>
                  if is_success (outcome rr)
                  then Inr (s1\<lparr>st_log := log_file, st_best_ok := Some rr, st_lo := mid + 1\<rparr>)
                  else Inr (s1\<lparr>st_log := log_file, st_hi := mid - 1\<rparr>)))"

partial_function (option) search_loop ::
  "world \<Rightarrow> args \<Rightarrow> str \<Rightarrow> str \<Rightarrow> search_state \<Rightarrow> (py_error \<times> search_state + search_state) option" where
  "search_loop w a transcript instructions s =
     (if st_hi s - st_lo s > arg_tolerance a then
        (case search_step w a transcript instructions s of
           Inl x \<Rightarrow> Some (Inl x)
         | Inr s' \<Rightarrow> search_loop w a transcript instructions s')
      else Some (Inr s))"

datatype report =
    Max_good int
  | Last_good int int
  | No_successful_size

text \<open>
  The final trial and the result section: \<open>Max_good n\<close> is the line
  \<open>Max-good (approx): n chars\<close> after a successful final trial, \<open>Last_good b n\<close> the same
  line with the length \<open>b\<close> of \<open>best_ok\<close> and \<open>Last tested failed at: n chars\<close>, and
  \<open>No_successful_size\<close> is \<open>No successful size found in the tested range.\<close>
\<close>

definition final_check ::
  "world \<Rightarrow> args \<Rightarrow> str \<Rightarrow> str \<Rightarrow> search_state \<Rightarrow> py_error \<times> search_state + report \<times> search_state" where
  "final_check w a transcript instructions s =
     (let full_len = len transcript;
          final_n = max 1 (min (st_hi s) full_len);
          s1 = s\<lparr>st_calls := Suc (st_calls s)\<rparr>
      in case trial w a transcript instructions (st_calls s) final_n of
           Inl e \<Rightarrow> Inl (e, s1)
         | Inr rr \<Rightarrow>
             (case write_log_line w (st_calls s) (st_log s) rr (st_lo s) (st_hi s) of
                Inl e \<Rightarrow> Inl (e, s1)
              | Inr log_file \<Rightarrow>
                  Inr (if is_success (outcome rr) then Max_good final_n
                       else (case st_best_ok s of
                               Some b \<Rightarrow> Last_good (n_chars b) final_n
                             | None \<Rightarrow> No_successful_size),
                       s1\<lparr>st_log := log_file\<rparr>)))"

text \<open>
  \<open>main\<close> from the bounds on: the result is \<open>None\<close> where the loop does not end, \<open>Inl\<close>
  where an exception ends the run (\<open>SystemExit\<close> for a bad range), and the report with
  the final state otherwise. The last argument is the log file as the run finds it.
\<close>

definition initial_state :: "args \<Rightarrow> str \<Rightarrow> log_line list \<Rightarrow> search_state" where
  "initial_state a transcript log_file =
     (let full_len = len transcript in
      \<lparr>st_lo = max 1 (min (arg_min_chars a) full_len),
       st_hi = (if arg_max_chars a = 0 then full_len else min (arg_max_chars a) full_len),
       st_best_ok = None, st_log = log_file, st_calls = 0\<rparr>)"

definition main ::
  "world \<Rightarrow> args \<Rightarrow> str \<Rightarrow> str \<Rightarrow> log_line list
     \<Rightarrow> (py_error \<times> search_state + report \<times> search_state) option" where
  "main w a transcript instructions log_file =
     (let s0 = initial_state a transcript log_file in
      if st_lo s0 \<ge> st_hi s0 then Some (Inl (SystemExit, s0))
      else
        (case search_loop w a transcript instructions s0 of
           None \<Rightarrow> None
         | Some (Inl x) \<Rightarrow> Some (Inl x)
         | Some (Inr s) \<Rightarrow> Some (final_check w a transcript instructions s)))"

section \<open>limit\_probe\_prod.py\<close>

text \<open>
  The second variant posts with \<open>requests\<close> and has no \<open>try\<close> statement around the call:
  \<open>requests.post\<close> either returns a response (with any status) or raises, and
  \<open>raise_for_status\<close> raises for a status from 400 to 599. The fixed options of its
  payload (\<open>top_p\<close>, \<open>top_k\<close>, \<open>repeat_penalty\<close>, \<open>seed\<close>, \<open>stream\<close>) are constants and
  are left out of the record; the length of the serialised payload and the rounded time
  of the call come from the environment.
\<close>

record prod_payload =
  pp_model :: str
  pp_system :: str
  pp_prompt :: str
  pp_temperature :: pyfloat
  pp_num_ctx :: int
  pp_num_predict :: int
  pp_format :: "str option"

datatype requests_result = Response int str | Post_raised

record prod_world =
  post :: "nat \<Rightarrow> str \<Rightarrow> prod_payload \<Rightarrow> requests_result"
  http_seconds :: "nat \<Rightarrow> pyfloat"
  payload_bytes :: "prod_payload \<Rightarrow> int"

record prod_meta =
  m_http_seconds :: pyfloat
  m_done_reason :: json
  m_eval_count :: json
  m_prompt_eval_count :: json
  m_total_duration :: json
  m_payload_bytes :: int
  m_prompt_chars :: int
  m_resp_chars :: int

text \<open>
  Truth value and \<open>len\<close> of a Python value. A float numeral is zero as a float when
  it rounds to zero, that is, up to half of the smallest subnormal.
\<close>

fun truthy :: "json \<Rightarrow> bool" where
  "truthy JNull = False"
| "truthy (JBool b) = b"
| "truthy (JInt i) = (i \<noteq> 0)"
| "truthy (JFloat r) = (\<bar>r\<bar> > 1 / 2 ^ 1075)"
| "truthy JNaN = True"
| "truthy JPosInf = True"
| "truthy JNegInf = True"
| "truthy (JStr s) = (s \<noteq> [])"
| "truthy (JArr vs) = (vs \<noteq> [])"
| "truthy (JObj kvs) = (kvs \<noteq> [])"

fun py_len :: "json \<Rightarrow> py_error + int" where
  "py_len (JStr s) = Inr (len s)"
| "py_len (JArr vs) = Inr (len vs)"
| "py_len (JObj kvs) = Inr (len (remdups (map fst kvs)))"
| "py_len _ = Inl TypeError"

definition is_json_object :: "str \<Rightarrow> bool" where
  "is_json_object s0 = (let s = strip s0 in if s = [] then False else json_loads s \<noteq> None)"

definition call_ollama ::
  "prod_world \<Rightarrow> nat \<Rightarrow> str \<Rightarrow> str \<Rightarrow> str \<Rightarrow> bool \<Rightarrow> int \<Rightarrow> int \<Rightarrow> pyfloat \<Rightarrow> str
     \<Rightarrow> py_error + json \<times> prod_meta \<times> str" where
  "call_ollama w i model system prompt want_json num_ctx num_predict temperature url =
     (let pl = \<lparr>pp_model = model, pp_system = system, pp_prompt = prompt,
                pp_temperature = temperature, pp_num_ctx = num_ctx, pp_num_predict = num_predict,
                pp_format = (if want_json then Some (lit ''json'') else None)\<rparr>
      in case post w i url pl of
           Post_raised \<Rightarrow> Inl RequestError
         | Response status raw_http \<Rightarrow>
             if 400 \<le> status \<and> status < 600 then Inl HTTPStatusError
             else
               (case json_loads raw_http of
                  None \<Rightarrow> Inl JSONDecodeError
                | Some obj \<Rightarrow>
                    (case dict_get obj (lit ''response'') (JStr []) of
                       Inl e \<Rightarrow> Inl e
                     | Inr v \<Rightarrow>
                         (let txt = (if truthy v then v else JStr []) in
                          case (dict_get obj (lit ''done_reason'') JNull,
                                dict_get obj (lit ''eval_count'') JNull,
                                dict_get obj (lit ''prompt_eval_count'') JNull,
                                dict_get obj (lit ''total_duration'') JNull,
                                py_len txt) of
                            (Inr dr, Inr ec, Inr pec, Inr td, Inr n) \<Rightarrow>
                              Inr (txt,
                                   \<lparr>m_http_seconds = http_seconds w i, m_done_reason = dr,
                                    m_eval_count = ec, m_prompt_eval_count = pec,
                                    m_total_duration = td, m_payload_bytes = payload_bytes w pl,
                                    m_prompt_chars = len prompt, m_resp_chars = n\<rparr>,
                                   raw_http)
                          | (_, _, _, _, Inl e) \<Rightarrow> Inl e
                          | _ \<Rightarrow> Inl AttributeError))))"

record prod_args =
  parg_model :: str
  parg_episode_id :: str
  parg_date :: str
  parg_title :: str
  parg_url :: str
  parg_want_json :: bool
  parg_num_ctx :: int
  parg_num_predict :: int
  parg_temp :: pyfloat
  parg_min_chars :: int
  parg_tolerance :: int

record prod_row =
  r_n_chars :: int
  r_ok :: bool
  r_meta :: prod_meta
  r_resp_head :: str

text \<open>
  \<open>attempt(n)\<close>, the closure of \<open>main\<close>: the call, the verdict \<open>ok\<close>, and one row appended
  to the log (written with the default \<open>ensure_ascii\<close>, so the write cannot fail on the
  text). The dump file of a failed attempt is a file of its own and is not modelled.
  \<open>system\<close> is the constant \<open>SYSTEM_RULES\<close> of the production module.
\<close>

definition attempt ::
  "prod_world \<Rightarrow> prod_args \<Rightarrow> str \<Rightarrow> str \<Rightarrow> nat \<Rightarrow> prod_row list \<Rightarrow> int
     \<Rightarrow> py_error + (bool \<times> str \<times> prod_meta) \<times> prod_row list" where
  "attempt w a system transcript i log_file n =
     (let partial = prefix transcript n;
          prompt = lit ''EPISODE METADATA (DO NOT CHANGE):'' @ [10]
                   @ lit ''episode_id: '' @ parg_episode_id a @ [10]
                   @ lit ''date: '' @ parg_date a @ [10]
                   @ lit ''title: '' @ parg_title a @ [10, 10]
                   @ lit ''TRANSCRIPT:'' @ [10] @ strip partial @ [10]
      in case call_ollama w i (parg_model a) system prompt (parg_want_json a) (parg_num_ctx a)
                (parg_num_predict a) (parg_temp a) (parg_url a) of
           Inl e \<Rightarrow> Inl e
         | Inr (txt, meta, raw_http) \<Rightarrow>
             (case txt of
                JStr t \<Rightarrow>
                  (let ok = (if parg_want_json a then is_json_object t else len (strip t) > 0);
                       row = \<lparr>r_n_chars = n, r_ok = ok, r_meta = meta,
                              r_resp_head = replace_newlines (prefix t 120)\<rparr>
                   in Inr ((ok, t, meta), log_file @ [row]))
              | _ \<Rightarrow> Inl AttributeError))"

record prod_state =
  ps_lo :: int
  ps_hi :: int
  ps_best :: int
  ps_best_meta :: "prod_meta option"
  ps_best_preview :: str
  ps_log :: "prod_row list"
  ps_calls :: nat

definition prod_step ::
  "prod_world \<Rightarrow> prod_args \<Rightarrow> str \<Rightarrow> str \<Rightarrow> prod_state \<Rightarrow> py_error \<times> prod_state + prod_state" where
  "prod_step w a system transcript s =
     (let mid = (ps_lo s + ps_hi s) div 2;
          s1 = s\<lparr>ps_calls := Suc (ps_calls s)\<rparr>
      in case attempt w a system transcript (ps_calls s) (ps_log s) mid of
           Inl e \<Rightarrow> Inl (e, s1)
         | Inr ((ok, txt, meta), log_file) \<Rightarrow>
             if ok
             then Inr (s1\<lparr>ps_log := log_file, ps_best := mid, ps_best_meta := Some meta,
                          ps_best_preview := prefix txt 300, ps_lo := mid + 1\<rparr>)
             else Inr (s1\<lparr>ps_log := log_file, ps_hi := mid - 1\<rparr>))"

partial_function (option) prod_loop ::
  "prod_world \<Rightarrow> prod_args \<Rightarrow> str \<Rightarrow> str \<Rightarrow> prod_state \<Rightarrow> (py_error \<times> prod_state + prod_state) option" where
  "prod_loop w a system transcript s =
     (if ps_hi s - ps_lo s > parg_tolerance a then
        (case prod_step w a system transcript s of
           Inl x \<Rightarrow> Some (Inl x)
         | Inr s' \<Rightarrow> prod_loop w a system transcript s')
      else Some (Inr s))"

text \<open>The final spot-check at the full length, after which \<open>best\<close> is what is printed.\<close>

definition prod_final :: 
  "prod_world \<Rightarrow> prod_args \<Rightarrow> str \<Rightarrow> str \<Rightarrow> prod_state \<Rightarrow> py_error \<times> prod_state + prod_state" where
  "prod_final w a system transcript s =
     (let full_len = len transcript;
          s1 = s\<lparr>ps_calls := Suc (ps_calls s)\<rparr>
      in case attempt w a system transcript (ps_calls s) (ps_log s) full_len of
           Inl e \<Rightarrow> Inl (e, s1)
         | Inr ((ok, txt, meta), log_file) \<Rightarrow>
             if ok
             then Inr (s1\<lparr>ps_log := log_file, ps_best := full_len, ps_best_meta := Some meta,
                          ps_best_preview := prefix txt 300\<rparr>)
             else Inr (s1\<lparr>ps_log := log_file\<rparr>))"

definition prod_initial :: "prod_args \<Rightarrow> str \<Rightarrow> prod_row list \<Rightarrow> prod_state" where
  "prod_initial a transcript log_file =
     \<lparr>ps_lo = parg_min_chars a, ps_hi = len transcript, ps_best = 0, ps_best_meta = None,
      ps_best_preview = [], ps_log = log_file, ps_calls = 0\<rparr>"

definition prod_main ::
  "prod_world \<Rightarrow> prod_args \<Rightarrow> str \<Rightarrow> str \<Rightarrow> prod_row list \<Rightarrow> (py_error \<times> prod_state + prod_state) option" where
  "prod_main w a system transcript log_file =
     (case prod_loop w a system transcript (prod_initial a transcript log_file) of
        None \<Rightarrow> None
      | Some (Inl x) \<Rightarrow> Some (Inl x)
      | Some (Inr s) \<Rightarrow> Some (prod_final w a system transcript s))"

section \<open>Reference definitions for the statements\<close>

text \<open>
  The brace scanner as the specification words it: from the first opening brace, one
  character at a time, tracking whether the scan is inside a string literal and whether
  the previous character was a backslash there, counting the nesting depth outside of
  strings, up to the matching closing brace. This is the specification's procedure, not
  code of the repository; it is what \<open>try_parse_json_output\<close> is compared with.
\<close>

fun spec_scan_balanced :: "nat \<Rightarrow> bool \<Rightarrow> bool \<Rightarrow> str \<Rightarrow> str \<Rightarrow> str option" where
  "spec_scan_balanced depth in_string escaped acc [] = None"
| "spec_scan_balanced depth in_string escaped acc (c # cs) =
     (if in_string then
        (if escaped then spec_scan_balanced depth True False (acc @ [c]) cs
         else if c = 92 then spec_scan_balanced depth True True (acc @ [c]) cs
         else if c = 34 then spec_scan_balanced depth False False (acc @ [c]) cs
         else spec_scan_balanced depth True False (acc @ [c]) cs)
      else if c = 34 then spec_scan_balanced depth True False (acc @ [c]) cs
      else if c = ch CHR ''{'' then spec_scan_balanced (Suc depth) False False (acc @ [c]) cs
      else if c = ch CHR ''}'' then
        (if depth \<le> 1 then Some (acc @ [c])
         else spec_scan_balanced (depth - 1) False False (acc @ [c]) cs)
      else spec_scan_balanced depth False False (acc @ [c]) cs)"

definition spec_first_balanced_object :: "str \<Rightarrow> str option" where
  "spec_first_balanced_object t =
     spec_scan_balanced 0 False False [] (dropWhile (\<lambda>c. c \<noteq> ch CHR ''{'') t)"

text \<open>The bound on the trials of the loop, as the specification states it.\<close>

definition spec_trial_bound :: "int \<Rightarrow> int \<Rightarrow> int \<Rightarrow> int" where
  "spec_trial_bound lo hi tolerance =
     \<lceil>log 2 (real_of_int (hi - lo) / real_of_int (max tolerance 1))\<rceil> + 1"

text \<open>
  \<open>after_iterations n s0 s\<close>: the loop of \<open>main\<close>, started in \<open>s0\<close>, is in state \<open>s\<close>
  after \<open>n\<close> complete iterations (each entered with the loop condition true and ended
  without an exception). These are the points of the search.
\<close>

fun after_iterations ::
  "world \<Rightarrow> args \<Rightarrow> str \<Rightarrow> str \<Rightarrow> nat \<Rightarrow> search_state \<Rightarrow> search_state \<Rightarrow> bool" where
  "after_iterations w a transcript instructions 0 s0 s = (s = s0)"
| "after_iterations w a transcript instructions (Suc n) s0 s =
     (st_hi s0 - st_lo s0 > arg_tolerance a \<and>
      (case search_step w a transcript instructions s0 of
         Inl x \<Rightarrow> False
       | Inr s1 \<Rightarrow> after_iterations w a transcript instructions n s1 s))"

fun prod_after_iterations ::
  "prod_world \<Rightarrow> prod_args \<Rightarrow> str \<Rightarrow> str \<Rightarrow> nat \<Rightarrow> prod_state \<Rightarrow> prod_state \<Rightarrow> bool" where
  "prod_after_iterations w a system transcript 0 s0 s = (s = s0)"
| "prod_after_iterations w a system transcript (Suc n) s0 s =
     (ps_hi s0 - ps_lo s0 > parg_tolerance a \<and>
      (case prod_step w a system transcript s0 of
         Inl x \<Rightarrow> False
       | Inr s1 \<Rightarrow> prod_after_iterations w a system transcript n s1 s))"

text \<open>The state that a result of the loop or of \<open>main\<close> carries.\<close>

definition loop_state :: "'e \<times> 's + 's \<Rightarrow> 's" where
  "loop_state r = (case r of Inl (e, s) \<Rightarrow> s | Inr s \<Rightarrow> s)"

definition run_state :: "'e \<times> 's + 'r \<times> 's \<Rightarrow> 's" where
  "run_state r = (case r of Inl (e, s) \<Rightarrow> s | Inr (x, s) \<Rightarrow> s)"

section \<open>Concrete services and configurations\<close>

definition quoted :: "str \<Rightarrow> str" where
  "quoted s = 34 # s @ [34]"

text \<open>The envelope \<open>{"response": v}\<close> for a JSON text \<open>v\<close>.\<close>

definition envelope :: "str \<Rightarrow> str" where
  "envelope v = lit ''{'' @ quoted (lit ''response'') @ lit '': '' @ v @ lit ''}''"

definition service_always :: "urlopen_result \<Rightarrow> world" where
  "service_always r =
     \<lparr>urlopen = (\<lambda>i url pl timeout_s. r), elapsed = (\<lambda>i. 0), strftime = (\<lambda>i. []),
      round3 = (\<lambda>x. x)\<rparr>"

definition probe_args :: "bool \<Rightarrow> int \<Rightarrow> int \<Rightarrow> args" where
  "probe_args want_json min_chars tolerance =
     \<lparr>arg_url = [], arg_model = [], arg_want_json = want_json, arg_num_ctx = 32768,
      arg_num_predict = 4096, arg_temperature = 0, arg_timeout = 300,
      arg_min_chars = min_chars, arg_max_chars = 0, arg_tolerance = tolerance\<rparr>"

definition prod_service_always :: "requests_result \<Rightarrow> prod_world" where
  "prod_service_always r =
     \<lparr>post = (\<lambda>i url pl. r), http_seconds = (\<lambda>i. 0), payload_bytes = (\<lambda>pl. 0)\<rparr>"

definition prod_probe_args :: "bool \<Rightarrow> int \<Rightarrow> int \<Rightarrow> prod_args" where
  "prod_probe_args want_json min_chars tolerance =
     \<lparr>parg_model = [], parg_episode_id = [], parg_date = [], parg_title = [], parg_url = [],
      parg_want_json = want_json, parg_num_ctx = 32768, parg_num_predict = 4096, parg_temp = 0,
      parg_min_chars = min_chars, parg_tolerance = tolerance\<rparr>"

section \<open>Evaluation and auxiliary facts\<close>

text \<open>
  The definitions that a closed term unfolds to a value; the simplifier evaluates with
  them (without splitting conditionals, whose conditions all evaluate).
\<close>

lemmas text_defs = lit_def ch_def len_def isspace_def space_ranges_def isdecimal_def decimal_ranges_def
  lstrip_def strip_def startswith_def endswith_def str_find_def str_rfind_def slice_def slice_bound_def prefix_def
  quoted_def envelope_def Let_def

lemmas json_defs = is_ws_def skip_ws_def isdigit_def digits_val_def hexval_def hex4_def unescape_def
  join_surrogates_def lex_exponent_def lex_fraction_def float_value_def lex_number_def json_loads_def

lemmas stub_defs = looks_like_stub_def match_numbered_def match_numbered_speaker_def the_speaker_icase_def

lemma lit_eq_iff: "lit a = lit b \<longleftrightarrow> a = b"
  by (simp add: lit_def inj_map_eq_map[OF inj_of_char])

lemma dropWhile_strip: "dropWhile isspace (strip s) = strip s"
proof (cases "dropWhile isspace s = []")
  case True
  show ?thesis unfolding strip_def True by simp
next
  case False
  define u where "u = dropWhile isspace s"
  have u: "u \<noteq> []" "\<not> isspace (hd u)" using False hd_dropWhile[of isspace s] by (auto simp: u_def)
  have "\<not> isspace (last (rev u))" using u by (simp add: last_rev)
  then have ne: "dropWhile isspace (rev u) \<noteq> []" using u
    by (metis dropWhile_eq_Nil_conv last_in_set rev_is_Nil_conv)
  have "hd (rev (dropWhile isspace (rev u))) = hd u"
  proof -
    have "last (takeWhile isspace (rev u) @ dropWhile isspace (rev u)) = last (dropWhile isspace (rev u))"
      using ne by (rule last_appendR)
    then have "last (dropWhile isspace (rev u)) = last (rev u)" by simp
    then show ?thesis using ne u by (simp add: hd_rev last_rev)
  qed
  then show ?thesis using u ne
    by (simp add: strip_def u_def[symmetric] dropWhile_eq_self_iff)
qed

lemma strip_idem: "strip (strip s) = strip s"
proof -
  have "dropWhile isspace (rev (strip s)) = rev (strip s)"
    by (simp add: strip_def)
  then show ?thesis
    using dropWhile_strip[of s] by (metis strip_def rev_rev_ident) 
qed

lemma find_from_range: "find_from i c t = -1 \<or> int i \<le> find_from i c t"
  by (induction i c t rule: find_from.induct) auto

lemma find_from_hd: "find_from i c (c # t) = int i" by simp

lemma slice_all: "slice t 0 (len t) = t"
  by (simp add: slice_def slice_bound_def len_def)

lemma isdecimal_95: "\<not> isdecimal 95"
  by (simp add: isdecimal_def decimal_ranges_def split del: if_split)

lemma match_numbered_hd: "match_numbered t \<noteq> None \<Longrightarrow> dropWhile isspace t = t \<Longrightarrow> t \<noteq> [] \<and> isdecimal (hd t)"
  by (cases t) (auto simp: match_numbered_def Let_def split: if_splits)

lemma match_speaker_numbered: "match_numbered_speaker t \<Longrightarrow> match_numbered t \<noteq> None"
  by (auto simp: match_numbered_speaker_def split: option.splits)

lemma stub_not_marker:
  assumes "looks_like_stub (strip s)" "strip s \<noteq> []"
  shows "\<not> startswith (strip s) (lit ''__EXCEPTION__'')"
proof -
  have "match_numbered (strip s) \<noteq> None"
    using assms match_speaker_numbered[of "strip s"]
    by (auto simp: looks_like_stub_def strip_idem Let_def split: if_splits)
  then have "isdecimal (hd (strip s))" using match_numbered_hd dropWhile_strip by blast
  moreover have "startswith (strip s) (lit ''__EXCEPTION__'') \<Longrightarrow> hd (strip s) = 95"
    using assms(2) by (cases "strip s") (auto simp: startswith_def lit_def)
  ultimately show ?thesis using isdecimal_95 by metis
qed

section \<open>The classifier\<close>

text \<open>
  C2. For every response text, requested-output mode and completion reason the classifier
  returns one outcome, the first that applies in the order: error marker, empty, stub,
  and only then the structured parse and the truncation check. In particular a text that
  the stub heuristic accepts is classified \<open>STUB\<close> even when it holds a JSON object that
  parses, never \<open>OK_JSON\<close>.
\<close>

theorem classify_outcome_decision_order:
  "classify_outcome (JStr s) want_json dr = Inr
     (if startswith (strip s) (lit ''__EXCEPTION__'') then ERROR
      else if strip s = [] then EMPTY
      else if looks_like_stub (strip s) then STUB
      else if want_json then
        (if try_parse_json_output (strip s) then OK_JSON
         else if dr = JStr (lit ''length'') then TRUNCATED else BAD_JSON)
      else if dr = JStr (lit ''length'') then TRUNCATED else OK_TEXT)
   \<and> (looks_like_stub s \<and> strip s \<noteq> [] \<and> try_parse_json_output s
        \<longrightarrow> classify_outcome (JStr s) want_json dr = Inr STUB)"
proof -
  have first: "classify_outcome (JStr s) want_json dr = Inr
     (if startswith (strip s) (lit ''__EXCEPTION__'') then ERROR
      else if strip s = [] then EMPTY
      else if looks_like_stub (strip s) then STUB
      else if want_json then
        (if try_parse_json_output (strip s) then OK_JSON
         else if dr = JStr (lit ''length'') then TRUNCATED else BAD_JSON)
      else if dr = JStr (lit ''length'') then TRUNCATED else OK_TEXT)"
    by (simp add: classify_outcome_def Let_def)
  have stub: "looks_like_stub (strip s) = looks_like_stub s"
    by (simp add: looks_like_stub_def strip_idem)
  have "classify_outcome (JStr s) want_json dr = Inr STUB"
    if "looks_like_stub s" "strip s \<noteq> []"
    using that stub stub_not_marker[of s] by (simp add: first)
  with first show ?thesis by blast
qed

theorem classify_outcome_decision_order_witness:
  "looks_like_stub (lit ''1. {}'') \<and> strip (lit ''1. {}'') \<noteq> []
   \<and> try_parse_json_output (lit ''1. {}'')
   \<and> classify_outcome (JStr (lit ''1. {}'')) True (JStr (lit ''stop'')) = Inr STUB"
proof -
  have h: "looks_like_stub (lit ''1. {}'') \<and> strip (lit ''1. {}'') \<noteq> []
           \<and> try_parse_json_output (lit ''1. {}'')"
    by (simp add: try_parse_json_output_def text_defs json_defs stub_defs split del: if_split)
  show ?thesis
    using h classify_outcome_decision_order [of "lit ''1. {}''" True "JStr (lit ''stop'')"]
    by blast
qed

section \<open>One trial on an arbitrary body\<close>

text \<open>
  C10. A single trial is meant to return a \<open>RunResult\<close> for every HTTP body. It does not
  for the envelope \<open>{"response": null}\<close>: \<open>data.get("response", ...)\<close> finds the key and
  returns \<open>None\<close>, and \<open>classify_outcome\<close> calls \<open>strip\<close> on it. Whatever the
  arguments of the trial, it raises \<open>AttributeError\<close>.
\<close>

lemma extract_null_envelope:
  "extract_generate_fields (envelope (lit ''null'')) = JObj [(lit ''response'', JNull)]"
  by (simp add: extract_generate_fields_def text_defs json_defs split del: if_split)

theorem run_once_null_response_raises:
  "run_once (service_always (Responded 200 (envelope (lit ''null'')))) i url model instructions
     transcript_prefix want_json stream temperature num_ctx num_predict timeout_s
   = Inl AttributeError"
  by (simp add: run_once_def post_ollama_def service_always_def extract_null_envelope dict_get_def
        classify_outcome_def Let_def lit_eq_iff split del: if_split)

lemma brace_codes: "lit ''{'' = [123]" "lit ''}'' = [125]" "ch CHR ''{'' = 123" "ch CHR ''}'' = 125"
  by (simp_all add: lit_def ch_def)

lemma str_find_startswith: "startswith t [c] \<Longrightarrow> str_find t c = 0"
  by (cases t) (auto simp: startswith_def str_find_def)

lemma str_rfind_endswith:
  assumes "endswith t [c]" shows "str_rfind t c = len t - 1"
proof -
  from assms have l: "1 \<le> length t" and d: "drop (length t - 1) t = [c]"
    by (auto simp: endswith_def)
  then have "t \<noteq> []" by auto
  then have "t = butlast t @ [last t]" by simp
  moreover have "last t = c" using d l
    by (metis \<open>t \<noteq> []\<close> last_drop last.simps diff_less length_greater_0_conv zero_less_one)
  ultimately have "rev t = c # rev (butlast t)" by (metis rev.simps(2) rev_append rev_rev_ident rev_singleton_conv append_Cons append_Nil)
  then have "find_from 0 c (rev t) = 0" by (metis find_from_hd of_nat_0)
  then show ?thesis by (simp add: str_rfind_def Let_def)
qed

lemma try_parse_json_output_candidate:
  "try_parse_json_output s =
     (str_find (strip s) (ch CHR ''{'') \<noteq> -1
      \<and> str_find (strip s) (ch CHR ''{'') < str_rfind (strip s) (ch CHR ''}'')
      \<and> json_loads (slice (strip s) (str_find (strip s) (ch CHR ''{''))
                      (str_rfind (strip s) (ch CHR ''}'') + 1)) \<noteq> None)"
proof -
  define t where "t = strip s"
  have tt: "strip t = t" by (simp add: t_def strip_idem)
  have rng: "str_find t 123 = -1 \<or> 0 \<le> str_find t 123"
    using find_from_range[of 0 123 t] by (simp add: str_find_def)
  show ?thesis
  proof (cases "t = []")
    case True
    then show ?thesis
      by (simp add: try_parse_json_output_def t_def[symmetric] str_find_def brace_codes)
  next
    case ne: False
    show ?thesis
    proof (cases "startswith t [123] \<and> endswith t [125]")
      case True
      then have a: "str_find t 123 = 0" and b: "str_rfind t 125 = len t - 1"
        by (simp_all add: str_find_startswith str_rfind_endswith)
      from True have "hd t = 123" "last t = 125"
        using ne by (cases t; auto simp: startswith_def endswith_def dest: arg_cong[where f=last])+
      then have "length t \<noteq> 1" by (cases t) auto
      then have "1 < len t" using ne by (cases t) (auto simp: len_def)
      then show ?thesis using True ne a b
        by (simp add: try_parse_json_output_def t_def[symmetric] tt brace_codes slice_all Let_def)
    next
      case False
      then show ?thesis using ne rng
        by (auto simp add: try_parse_json_output_def t_def[symmetric] tt brace_codes Let_def)
    qed
  qed
qed

text \<open>
  C3 as stated: with structured output requested and a response that is not an error,
  empty or a stub, the classifier finds the first balanced brace-delimited object with a
  scanner that tracks string literals and escapes, and the trial is \<open>OK_JSON\<close> exactly
  when that object parses. The code has no such scanner. On \<open>{} }\<close> the first balanced
  object is \<open>{}\<close>, which parses, and the outcome is \<open>BAD_JSON\<close>.
\<close>

theorem first_balanced_object_counterexample:
  "spec_first_balanced_object (lit ''{} }'') = Some (lit ''{}'') \<and> json_loads (lit ''{}'') \<noteq> None
   \<and> classify_outcome (JStr (lit ''{} }'')) True (JStr (lit ''stop'')) = Inr BAD_JSON"
  by (simp add: classify_outcome_def try_parse_json_output_def spec_first_balanced_object_def
        text_defs json_defs stub_defs split del: if_split)

text \<open>
  C3 as amended: the candidate is the part of the stripped text from its first opening
  brace to its last closing brace (the whole stripped text when it starts with one and
  ends with the other), with no scanning of string literals or nesting; the trial is
  \<open>OK_JSON\<close> exactly when the text is no error, not empty and no stub, and
  \<open>json.loads\<close> accepts that candidate. The text \<open>{"a": "text with { inside"}\<close> is
  accepted as one object.
\<close>

theorem classify_ok_json_iff:
  "(classify_outcome (JStr s) True dr = Inr OK_JSON) =
     (\<not> startswith (strip s) (lit ''__EXCEPTION__'') \<and> strip s \<noteq> [] \<and> \<not> looks_like_stub (strip s)
      \<and> str_find (strip s) (ch CHR ''{'') \<noteq> -1
      \<and> str_find (strip s) (ch CHR ''{'') < str_rfind (strip s) (ch CHR ''}'')
      \<and> json_loads (slice (strip s) (str_find (strip s) (ch CHR ''{''))
                      (str_rfind (strip s) (ch CHR ''}'') + 1)) \<noteq> None)
   \<and> classify_outcome
         (JStr (lit ''{'' @ quoted (lit ''a'') @ lit '': '' @ quoted (lit ''text with { inside'') @ lit ''}''))
         True dr = Inr OK_JSON"
proof -
  have "try_parse_json_output (strip s) =
     (str_find (strip s) (ch CHR ''{'') \<noteq> -1
      \<and> str_find (strip s) (ch CHR ''{'') < str_rfind (strip s) (ch CHR ''}'')
      \<and> json_loads (slice (strip s) (str_find (strip s) (ch CHR ''{''))
                      (str_rfind (strip s) (ch CHR ''}'') + 1)) \<noteq> None)"
    using try_parse_json_output_candidate[of "strip s"] by (simp add: strip_idem)
  then have a: "(classify_outcome (JStr s) True dr = Inr OK_JSON) =
     (\<not> startswith (strip s) (lit ''__EXCEPTION__'') \<and> strip s \<noteq> [] \<and> \<not> looks_like_stub (strip s)
      \<and> str_find (strip s) (ch CHR ''{'') \<noteq> -1
      \<and> str_find (strip s) (ch CHR ''{'') < str_rfind (strip s) (ch CHR ''}'')
      \<and> json_loads (slice (strip s) (str_find (strip s) (ch CHR ''{''))
                      (str_rfind (strip s) (ch CHR ''}'') + 1)) \<noteq> None)"
    by (simp add: classify_outcome_def Let_def)
  have b: "classify_outcome
         (JStr (lit ''{'' @ quoted (lit ''a'') @ lit '': '' @ quoted (lit ''text with { inside'') @ lit ''}''))
         True dr = Inr OK_JSON"
    by (simp add: classify_outcome_def try_parse_json_output_def text_defs json_defs stub_defs
          split del: if_split)
  from a b show ?thesis by (rule conjI)
qed

section \<open>Errors of a trial\<close>

lemma strip_keeps_prefix:
  assumes "m \<noteq> []" "\<forall>c \<in> set m. \<not> isspace c"
  shows "\<exists>r'. strip (m @ r) = m @ r'"
proof -
  have l: "dropWhile isspace (m @ r) = m @ r"
    using assms by (cases m) auto
  have "dropWhile isspace (rev r @ rev m) = dropWhile isspace (rev r) @ rev m"
    using assms by (cases "rev m") (auto simp: dropWhile_append)
  then have "strip (m @ r) = m @ rev (dropWhile isspace (rev r))"
    by (simp add: strip_def l)
  then show ?thesis by blast
qed

lemma marker_no_space: "\<forall>c \<in> set (lit ''__EXCEPTION__''). \<not> isspace c"
  by (simp add: text_defs split del: if_split)

lemma marker_text:
  "\<exists>r'. strip (lit ''__EXCEPTION__ '' @ x) = lit ''__EXCEPTION__'' @ r'"
    "dropWhile isspace (lit ''__EXCEPTION__ '' @ x) = lit ''__EXCEPTION__ '' @ x"
    "\<not> startswith (lit ''__EXCEPTION__ '' @ x) (lit ''{'')"
proof -
  have e: "lit ''__EXCEPTION__ '' @ x = lit ''__EXCEPTION__'' @ (32 # x)" by (simp add: lit_def)
  show "\<exists>r'. strip (lit ''__EXCEPTION__ '' @ x) = lit ''__EXCEPTION__'' @ r'"
    unfolding e by (rule strip_keeps_prefix) (simp_all add: marker_no_space, simp add: lit_def)
  show "dropWhile isspace (lit ''__EXCEPTION__ '' @ x) = lit ''__EXCEPTION__ '' @ x"
    by (simp add: text_defs split del: if_split)
  show "\<not> startswith (lit ''__EXCEPTION__ '' @ x) (lit ''{'')"
    by (simp add: startswith_def lit_def)
qed

lemma classify_marker:
  "classify_outcome (JStr (lit ''__EXCEPTION__ '' @ x)) want_json dr = Inr ERROR"
proof -
  obtain r' where "strip (lit ''__EXCEPTION__ '' @ x) = lit ''__EXCEPTION__'' @ r'"
    using marker_text(1) by blast
  then show ?thesis by (simp add: classify_outcome_def startswith_def)
qed

lemma raw_envelope_get:
  "dict_get (JObj [(lit ''_parse_error'', e), (lit ''_raw'', JStr t)]) k d =
     Inr (if k = lit ''_raw'' then JStr t else if k = lit ''_parse_error'' then e else d)"
  by (simp add: dict_get_def)

lemma classify_str_total: "\<exists>oc. classify_outcome (JStr s) want_json dr = Inr oc"
  by (simp add: classify_outcome_def Let_def)

lemma run_once_raw:
  assumes "post_ollama w i url
             \<lparr>p_model = model, p_prompt = build_prompt instructions tp, p_stream = stream,
                p_temperature = temperature, p_num_ctx = num_ctx, p_num_predict = num_predict,
                p_format = (if want_json then Some (lit ''json'') else None)\<rparr> timeout_s = (status, text)"
    and "extract_generate_fields text = JObj [(lit ''_parse_error'', e), (lit ''_raw'', JStr t)]"
  shows "\<exists>rr. run_once w i url model instructions tp want_json stream temperature num_ctx num_predict timeout_s = Inr rr
           \<and> http_status rr = status
           \<and> classify_outcome (JStr t) want_json (JStr (lit ''unknown'')) = Inr (outcome rr)"
proof -
  obtain oc where oc: "classify_outcome (JStr t) want_json (JStr (lit ''unknown'')) = Inr oc"
    using classify_str_total by blast
  show ?thesis
    by (simp add: run_once_def Let_def assms oc raw_envelope_get lit_eq_iff split del: if_split)
qed

end
